theory Spec2Isabelle
  imports Main
begin

section \<open>Python strings and the \<open>posixpath\<close> functions the exporter calls\<close>

text \<open>
  A Python \<open>str\<close> is modelled as a \<open>string\<close>; a character stands for the code
  point of the same number (0 to 255). The functions of this section are the ones of the
  Python standard library that \<open>mskexporter.pyw\<close> calls. \<open>os.path\<close> is taken to
  be \<open>posixpath\<close>, as on Linux: the separator is the slash, there are no drive
  letters. The definitions follow \<open>posixpath.py\<close> and \<open>genericpath.py\<close> statement
  by statement.
\<close>

definition sep :: char where
  "sep = CHR ''/''"

definition extsep :: char where
  "extsep = CHR ''.''"

text \<open>\<open>str.isspace\<close> for one character, on the code points below 256.\<close>

definition py_isspace :: "char \<Rightarrow> bool" where
  "py_isspace c = ((of_char c :: nat) \<in> {9, 10, 11, 12, 13, 28, 29, 30, 31, 32, 133, 160})"

text \<open>\<open>s.strip()\<close>: leading and trailing whitespace removed.\<close>

definition py_strip :: "string \<Rightarrow> string" where
  "py_strip s = rev (dropWhile py_isspace (rev (dropWhile py_isspace s)))"

text \<open>\<open>s.rstrip(c)\<close> for a single character \<open>c\<close>.\<close>

definition py_rstrip :: "char \<Rightarrow> string \<Rightarrow> string" where
  "py_rstrip c s = rev (dropWhile (\<lambda>x. x = c) (rev s))"

text \<open>\<open>s.rfind(c)\<close>: the highest index of \<open>c\<close> in \<open>s\<close>, or \<open>-1\<close>.\<close>

definition py_rfind :: "char \<Rightarrow> string \<Rightarrow> int" where
  "py_rfind c s =
     (if c \<in> set s then int (length s) - 1 - int (length (takeWhile (\<lambda>x. x \<noteq> c) (rev s)))
      else - 1)"

text \<open>\<open>s.startswith(c)\<close> and \<open>s.endswith(c)\<close> for a single character.\<close>

definition py_startswith :: "char \<Rightarrow> string \<Rightarrow> bool" where
  "py_startswith c s = (case s of [] \<Rightarrow> False | x # _ \<Rightarrow> x = c)"

definition py_endswith :: "char \<Rightarrow> string \<Rightarrow> bool" where
  "py_endswith c s = (s \<noteq> [] \<and> last s = c)"

text \<open>\<open>s.split(c)\<close>: the pieces between the occurrences of \<open>c\<close>.\<close>

fun py_split :: "char \<Rightarrow> string \<Rightarrow> string list" where
  "py_split c [] = [[]]"
| "py_split c (x # xs) =
     (if x = c then [] # py_split c xs
      else (case py_split c xs of [] \<Rightarrow> [[x]] | w # ws \<Rightarrow> (x # w) # ws))"

text \<open>\<open>s.split(c, maxsplit=1)\<close>: split at the first occurrence of \<open>c\<close> only.\<close>

definition py_split1 :: "char \<Rightarrow> string \<Rightarrow> string list" where
  "py_split1 c s =
     (case dropWhile (\<lambda>x. x \<noteq> c) s of
        [] \<Rightarrow> [s]
      | _ # after \<Rightarrow> [takeWhile (\<lambda>x. x \<noteq> c) s, after])"

text \<open>\<open>c.join(parts)\<close>.\<close>

fun py_join :: "char \<Rightarrow> string list \<Rightarrow> string" where
  "py_join c [] = []"
| "py_join c [w] = w"
| "py_join c (w # ws) = w @ c # py_join c ws"

text \<open>
  \<open>os.path.split(p)\<close>: \<open>i = p.rfind(sep) + 1; head, tail = p[:i], p[i:]\<close>; the
  trailing slashes of \<open>head\<close> are stripped unless \<open>head\<close> consists of slashes only.
\<close>

definition os_path_split :: "string \<Rightarrow> string \<times> string" where
  "os_path_split p =
     (let i = nat (py_rfind sep p + 1);
          head = take i p;
          tail = drop i p
      in (if head \<noteq> [] \<and> head \<noteq> replicate (length head) sep
          then py_rstrip sep head else head, tail))"

text \<open>\<open>os.path.dirname(p)\<close>, with the same stripping of \<open>head\<close>.\<close>

definition os_path_dirname :: "string \<Rightarrow> string" where
  "os_path_dirname p =
     (let i = nat (py_rfind sep p + 1);
          head = take i p
      in if head \<noteq> [] \<and> head \<noteq> replicate (length head) sep
         then py_rstrip sep head else head)"

text \<open>
  The loop of \<open>genericpath._splitext\<close> that skips the leading dots of the file name:
  the extension is split off at \<open>dotIndex\<close> as soon as a character other than a dot is
  found before it.
\<close>

function splitext_loop :: "string \<Rightarrow> int \<Rightarrow> int \<Rightarrow> string \<times> string" where
  "splitext_loop p filenameIndex dotIndex =
     (if filenameIndex < dotIndex then
        (if take 1 (drop (nat filenameIndex) p) \<noteq> [extsep]
         then (take (nat dotIndex) p, drop (nat dotIndex) p)
         else splitext_loop p (filenameIndex + 1) dotIndex)
      else (p, []))"
  by pat_completeness auto
termination
  by (relation "measure (\<lambda>(p, filenameIndex, dotIndex). nat (dotIndex - filenameIndex))") auto

declare splitext_loop.simps [simp del]

text \<open>\<open>os.path.splitext(p)\<close> (on POSIX there is no alternative separator).\<close>

definition os_path_splitext :: "string \<Rightarrow> string \<times> string" where
  "os_path_splitext p =
     (let sepIndex = py_rfind sep p;
          dotIndex = py_rfind extsep p
      in if dotIndex > sepIndex then splitext_loop p (sepIndex + 1) dotIndex
         else (p, []))"

text \<open>\<open>os.path.join(a, b)\<close> with exactly two arguments, as the exporter calls it.\<close>

definition os_path_join :: "string \<Rightarrow> string \<Rightarrow> string" where
  "os_path_join a b =
     (if py_startswith sep b then b
      else if a = [] \<or> py_endswith sep a then a @ b
      else a @ sep # b)"

text \<open>
  The loop of \<open>os.path.normpath\<close> over the components of the path (\<open>cmp\<close> is the
  source's \<open>comp\<close>).
\<close>

fun normpath_loop :: "bool \<Rightarrow> string list \<Rightarrow> string list \<Rightarrow> string list" where
  "normpath_loop initial_slashes new_comps [] = new_comps"
| "normpath_loop initial_slashes new_comps (cmp # comps) =
     (if cmp = [] \<or> cmp = ''.'' then normpath_loop initial_slashes new_comps comps
      else if cmp \<noteq> ''..'' \<or> (\<not> initial_slashes \<and> new_comps = [])
              \<or> (new_comps \<noteq> [] \<and> last new_comps = ''..'')
      then normpath_loop initial_slashes (new_comps @ [cmp]) comps
      else if new_comps \<noteq> [] then normpath_loop initial_slashes (butlast new_comps) comps
      else normpath_loop initial_slashes new_comps comps)"

text \<open>
  \<open>os.path.normpath(path)\<close>. \<open>initial_slashes\<close> is 0, 1 or 2 in the source (two
  leading slashes are kept, three or more collapse to one).
\<close>

definition os_path_normpath :: "string \<Rightarrow> string" where
  "os_path_normpath path =
     (if path = [] then ''.''
      else
        let initial_slashes :: nat =
              (if py_startswith sep path then
                 (if take 2 path = ''//'' \<and> take 3 path \<noteq> ''///'' then 2 else 1)
               else 0);
            comps = normpath_loop (initial_slashes \<noteq> 0) [] (py_split sep path);
            joined = replicate initial_slashes sep @ py_join sep comps
        in if joined = [] then ''.'' else joined)"


section \<open>The exporter's state and its surroundings\<close>

text \<open>\<open>OUTPUT_TYPES\<close>; index 0 is Markdown, the format the generator writes.\<close>

definition OUTPUT_TYPES :: "string list" where
  "OUTPUT_TYPES = [''md'', ''odt'', ''docx'', ''html'']"

text \<open>
  The colours the status bar is configured with. \<open>RootBackground\<close> is the value of
  \<open>self.root.cget('background')\<close>; \<open>LabelDefault\<close> is the option of a label that has
  not been configured yet.
\<close>

datatype colour = Red | Green | White | Black | RootBackground | LabelDefault

record label =
  label_bg :: colour
  label_fg :: colour
  label_text :: string

text \<open>The \<open>state\<close> option of a menu entry.\<close>

datatype entry_state = Normal | Disabled

text \<open>
  What the program does to the outside, in the order it does it: a call of
  \<open>set_info_how\<close> with its message, a call of \<open>call_pandoc\<close> with the file list
  forwarded to it, and a call of \<open>pypandoc.convert_file\<close> with its source file, target
  format and output file. The list is not a field of the Python object; it records the
  calls so that theorems can count them.
\<close>

datatype effect =
    Report string
  | Forwarded "string list"
  | ConvertFile string string string

text \<open>
  The fields of a \<open>MainTk\<close> object and the widget options its methods configure.
  \<open>statusText\<close> and \<open>pathText\<close> are the source's \<open>_statusText\<close> and \<open>_pathText\<close>;
  \<open>pathText\<close> and \<open>prjName\<close> are \<open>None\<close> until they are first assigned.
\<close>

record MainTk =
  usePandoc :: bool
  infoHowText :: string
  title :: string
  statusText :: string
  kwargs :: "string \<rightharpoonup> string"
  prjDir :: "string option"
  prjName :: "string option"
  pathText :: "string option"
  root_title :: string
  root_geometry :: "string option"
  fileMenu_Close :: entry_state
  mainMenu_Convert :: entry_state
  statusBar :: label
  pathBar_text :: string
  outputType :: int
  effects :: "effect list"

text \<open>
  What a call of a generator of \<open>mskmd\<close> does: it returns the list of the files it
  has written, or it raises. An exception whose class derives from \<open>Exception\<close> is
  given by its text \<open>str(ex)\<close>. Python has exceptions outside \<open>Exception\<close>
  (\<open>SystemExit\<close>, \<open>KeyboardInterrupt\<close>, \<open>GeneratorExit\<close> and any other class
  derived from \<open>BaseException\<close> only), which \<open>except Exception\<close> does not catch;
  such a raise is given by the name of its class.
\<close>

datatype generated =
    Written "string list"
  | RaisesException string
  | RaisesBaseException string

text \<open>
  The collaborators outside the repository. \<open>isfile\<close> and \<open>isdir\<close> are the file
  system as \<open>os.path\<close> sees it. \<open>askopenfilename\<close> maps the initial directory of the
  dialog to the path the user selects, the empty string when the dialog is dismissed.
  The three \<open>mskmd\<close> generators map the project directory to what the call does, a
  \<open>generated\<close>. \<open>pypandoc_convert_file\<close> returns \<open>None\<close> when the conversion
  succeeds and the text \<open>str(ex)\<close> of the \<open>Exception\<close> it raises otherwise; its first
  argument is everything the program has done so far, so the answer may differ from one
  call to the next.
\<close>

record environment =
  isfile :: "string \<Rightarrow> bool"
  isdir :: "string \<Rightarrow> bool"
  askopenfilename :: "string \<Rightarrow> string"
  mskmd_convert_outline :: "string option \<Rightarrow> generated"
  mskmd_convert_world :: "string option \<Rightarrow> generated"
  mskmd_convert_characters :: "string option \<Rightarrow> generated"
  pypandoc_convert_file :: "effect list \<Rightarrow> string \<Rightarrow> string \<Rightarrow> string \<Rightarrow> string option"
  winfo_geometry :: string

text \<open>
  The exceptions that leave a method of \<open>MainTk\<close>: the \<open>IndexError\<close> of a list
  index out of range, and an exception outside \<open>Exception\<close> that a generator raised,
  with the name of its class.
\<close>

datatype exn = IndexError | BaseException string

section \<open>The methods of \<open>MainTk\<close>\<close>

definition disable_menu :: "MainTk \<Rightarrow> MainTk" where
  "disable_menu s = s\<lparr>fileMenu_Close := Disabled, mainMenu_Convert := Disabled\<rparr>"

definition enable_menu :: "MainTk \<Rightarrow> MainTk" where
  "enable_menu s = s\<lparr>fileMenu_Close := Normal, mainMenu_Convert := Normal\<rparr>"

text \<open>
  \<open>_build_main_menu\<close>: the entries are added with their default state \<open>normal\<close>,
  \<open>Close\<close> is disabled at once, and \<open>disable_menu\<close> ends the method.
\<close>

definition build_main_menu :: "MainTk \<Rightarrow> MainTk" where
  "build_main_menu s =
     disable_menu (s\<lparr>fileMenu_Close := Normal\<rparr>\<lparr>fileMenu_Close := Disabled\<rparr>
                    \<lparr>mainMenu_Convert := Normal\<rparr>)"

text \<open>
  \<open>__init__(title, **kwargs)\<close>. The widgets are created with their defaults, the
  status bar and the path bar with the empty text, the output selector with the value 0;
  the menu is the one \<open>_build_main_menu\<close> leaves.
\<close>

definition MainTk_init :: "string \<Rightarrow> (string \<rightharpoonup> string) \<Rightarrow> MainTk" where
  "MainTk_init title0 kwargs0 =
     build_main_menu
       \<lparr>usePandoc = True,
        infoHowText = [],
        title = title0,
        statusText = [],
        kwargs = kwargs0,
        prjDir = None,
        prjName = None,
        pathText = None,
        root_title = title0,
        root_geometry =
          (case kwargs0 ''root_geometry'' of
             None \<Rightarrow> None
           | Some g \<Rightarrow> if g = [] then None else Some g),
        fileMenu_Close = Normal,
        mainMenu_Convert = Normal,
        statusBar = \<lparr>label_bg = LabelDefault, label_fg = LabelDefault, label_text = []\<rparr>,
        pathBar_text = [],
        outputType = 0,
        effects = []\<rparr>"

definition show_path :: "string \<Rightarrow> MainTk \<Rightarrow> MainTk" where
  "show_path message s = s\<lparr>pathText := Some message, pathBar_text := message\<rparr>"

definition show_status :: "string \<Rightarrow> MainTk \<Rightarrow> MainTk" where
  "show_status message s =
     s\<lparr>statusText := message,
       statusBar := \<lparr>label_bg = RootBackground, label_fg = Black, label_text = message\<rparr>\<rparr>"

definition restore_status :: "MainTk \<Rightarrow> MainTk" where
  "restore_status s = show_status (statusText s) s"

text \<open>
  \<open>set_info_how(message)\<close>. The guard \<open>message.startswith('!')\<close> makes
  \<open>message.split('!', maxsplit=1)\<close> a list of two strings, so the index 1 is in range.
\<close>

definition set_info_how :: "string \<Rightarrow> MainTk \<Rightarrow> MainTk" where
  "set_info_how message s =
     (let s0 = s\<lparr>effects := effects s @ [Report message]\<rparr>;
          s1 = (if py_startswith CHR ''!'' message
                then s0\<lparr>statusBar := (statusBar s0)\<lparr>label_bg := Red, label_fg := White\<rparr>,
                        infoHowText := py_strip (py_split1 CHR ''!'' message ! 1)\<rparr>
                else s0\<lparr>statusBar := (statusBar s0)\<lparr>label_bg := Green, label_fg := White\<rparr>,
                        infoHowText := message\<rparr>)
      in s1\<lparr>statusBar := (statusBar s1)\<lparr>label_text := infoHowText s1\<rparr>\<rparr>)"

definition close_project :: "MainTk \<Rightarrow> MainTk" where
  "close_project s =
     disable_menu (show_path [] (show_status [] (s\<lparr>prjDir := None, root_title := title s\<rparr>)))"

definition on_quit :: "environment \<Rightarrow> MainTk \<Rightarrow> MainTk" where
  "on_quit env s = s\<lparr>kwargs := (kwargs s)(''root_geometry'' \<mapsto> winfo_geometry env)\<rparr>"

text \<open>
  The first three lines of \<open>select_project\<close>: the directory the dialog starts in,
  \<open>os.path.dirname(self.kwargs.get('yw_last_open', ''))\<close>, or \<open>'./'\<close> when that is
  empty.
\<close>

definition initDir :: "MainTk \<Rightarrow> string" where
  "initDir s =
     (let d = os_path_dirname (case kwargs s ''yw_last_open'' of None \<Rightarrow> [] | Some v \<Rightarrow> v)
      in if d = [] then ''./'' else d)"

text \<open>\<open>select_project(fileName)\<close>.\<close>

definition select_project :: "environment \<Rightarrow> MainTk \<Rightarrow> string \<Rightarrow> string" where
  "select_project env s fileName =
     (let fileName1 = (if fileName = [] \<or> \<not> isfile env fileName
                       then askopenfilename env (initDir s) else fileName)
      in if fileName1 = [] then [] else fileName1)"

text \<open>
  \<open>open_project(fileName)\<close>; the result is the returned Boolean and the object after
  the call.
\<close>

definition open_project :: "environment \<Rightarrow> string \<Rightarrow> MainTk \<Rightarrow> bool \<times> MainTk" where
  "open_project env fileName s =
     (let s1 = restore_status s;
          fileName1 = select_project env s1 fileName
      in if fileName1 = [] then (False, s1)
         else
           let s2 = (if prjDir s1 \<noteq> None then close_project s1 else s1);
               (dir, file) = os_path_split fileName1;
               (name, extension) = os_path_splitext file;
               s3 = s2\<lparr>prjName := Some name, prjDir := Some (os_path_join dir name)\<rparr>
           in if \<not> isdir env (os_path_join dir name)
              then (False, s3\<lparr>prjDir := None, prjName := None\<rparr>)
              else (True, enable_menu (show_path (os_path_normpath (os_path_join dir name)) s3)))"

text \<open>
  The loop of \<open>call_pandoc\<close> over \<open>fileList\<close>: one call of \<open>pypandoc.convert_file\<close>
  for each file; an exception of the call is caught and its text \<open>str(ex)\<close> passed to
  \<open>set_info_how\<close>. (\<open>uu\<close> is the source's \<open>__\<close>, the extension that is dropped.)
\<close>

fun call_pandoc_loop :: "environment \<Rightarrow> string \<Rightarrow> string list \<Rightarrow> MainTk \<Rightarrow> MainTk" where
  "call_pandoc_loop env extension [] s = s"
| "call_pandoc_loop env extension (mdFile # fileList) s =
     (let (dir, file) = os_path_split mdFile;
          (name, uu) = os_path_splitext file;
          outputfile = os_path_join dir (name @ ''.'' @ extension);
          s1 = s\<lparr>effects := effects s @ [ConvertFile mdFile extension outputfile]\<rparr>
      in case pypandoc_convert_file env (effects s) mdFile extension outputfile of
           None \<Rightarrow> call_pandoc_loop env extension fileList s1
         | Some ex \<Rightarrow> call_pandoc_loop env extension fileList (set_info_how ex s1))"

text \<open>
  \<open>call_pandoc(fileList)\<close>. \<open>OUTPUT_TYPES[outputIndex]\<close> raises \<open>IndexError\<close> for an
  index beyond the list; the index is positive where it is read.
\<close>

definition call_pandoc :: "environment \<Rightarrow> string list \<Rightarrow> MainTk \<Rightarrow> exn option \<times> MainTk" where
  "call_pandoc env fileList s =
     (let s0 = s\<lparr>effects := effects s @ [Forwarded fileList]\<rparr>;
          outputIndex = outputType s0
      in if outputIndex > 0 then
           (if nat outputIndex < length OUTPUT_TYPES
            then (None, call_pandoc_loop env (OUTPUT_TYPES ! nat outputIndex) fileList s0)
            else (Some IndexError, s0))
         else (None, s0))"

text \<open>
  The three commands of the \<open>Convert\<close> menu. The handler is \<open>except Exception\<close>:
  it catches an exception derived from \<open>Exception\<close> and reports its text after the
  marker \<open>!\<close>; any other raise of the generator leaves the method with the object as
  it was. \<open>call_pandoc\<close> is in the \<open>else\<close> branch, outside the handler.
\<close>

definition convert_outline :: "environment \<Rightarrow> MainTk \<Rightarrow> exn option \<times> MainTk" where
  "convert_outline env s =
     (case mskmd_convert_outline env (prjDir s) of
        Written fileList \<Rightarrow>
          call_pandoc env fileList (set_info_how ''Outline documents written.'' s)
      | RaisesException ex \<Rightarrow> (None, set_info_how (''!'' @ ex) s)
      | RaisesBaseException cls \<Rightarrow> (Some (BaseException cls), s))"

definition convert_world :: "environment \<Rightarrow> MainTk \<Rightarrow> exn option \<times> MainTk" where
  "convert_world env s =
     (case mskmd_convert_world env (prjDir s) of
        Written fileList \<Rightarrow>
          call_pandoc env fileList (set_info_how ''Story world document written.'' s)
      | RaisesException ex \<Rightarrow> (None, set_info_how (''!'' @ ex) s)
      | RaisesBaseException cls \<Rightarrow> (Some (BaseException cls), s))"

definition convert_characters :: "environment \<Rightarrow> MainTk \<Rightarrow> exn option \<times> MainTk" where
  "convert_characters env s =
     (case mskmd_convert_characters env (prjDir s) of
        Written fileList \<Rightarrow>
          call_pandoc env fileList (set_info_how ''Character sheets document written.'' s)
      | RaisesException ex \<Rightarrow> (None, set_info_how (''!'' @ ex) s)
      | RaisesBaseException cls \<Rightarrow> (Some (BaseException cls), s))"


section \<open>A session of the window\<close>

text \<open>The three entries of the \<open>Convert\<close> menu and the commands bound to them.\<close>

datatype category = Outline | World | Characters

fun generate :: "environment \<Rightarrow> category \<Rightarrow> string option \<Rightarrow> generated" where
  "generate env Outline = mskmd_convert_outline env"
| "generate env World = mskmd_convert_world env"
| "generate env Characters = mskmd_convert_characters env"

fun convert :: "environment \<Rightarrow> category \<Rightarrow> MainTk \<Rightarrow> exn option \<times> MainTk" where
  "convert env Outline = convert_outline env"
| "convert env World = convert_world env"
| "convert env Characters = convert_characters env"

text \<open>
  What the user can do: \<open>File > Open\<close> or Ctrl-O (\<open>open_project('')\<close>; a caller may
  also pass a file name), \<open>File > Close\<close>, Escape or a click on the status bar, the
  three \<open>Convert\<close> entries, one of the radio buttons built from \<open>OUTPUT_TYPES\<close>, and
  \<open>File > Exit\<close>. Every action meets the surroundings as they are at that moment.
  When a command raises, Tk reports the exception and keeps the window running, or
  (for \<open>SystemExit\<close>) the main loop ends; either way the object is the one the command
  left behind. A disabled entry cannot be chosen in the window; a run accepts it all the
  same, so the runs cover every session of the window.
\<close>

datatype action =
    OpenProject string
  | CloseProject
  | RestoreStatus
  | Convert category
  | SelectOutput nat
  | QuitProgram

fun step :: "environment \<Rightarrow> action \<Rightarrow> MainTk \<Rightarrow> MainTk" where
  "step env (OpenProject fileName) s = snd (open_project env fileName s)"
| "step env CloseProject s = close_project s"
| "step env RestoreStatus s = restore_status s"
| "step env (Convert c) s = snd (convert env c s)"
| "step env (SelectOutput i) s =
     (if i < length OUTPUT_TYPES then s\<lparr>outputType := int i\<rparr> else s)"
| "step env QuitProgram s = on_quit env s"

fun run :: "(environment \<times> action) list \<Rightarrow> MainTk \<Rightarrow> MainTk" where
  "run [] s = s"
| "run ((env, a) # rest) s = run rest (step env a s)"

text \<open>
  The sessions of the window proper: \<open>Close\<close> can be chosen only while the entry
  \<open>Close\<close> of the file menu is enabled, and the three commands of the \<open>Convert\<close>
  menu only while the cascade \<open>Convert\<close> of the main menu is enabled. The other
  actions are always at hand (menu entry \<open>Open...\<close>, key bindings, radio buttons).
\<close>

fun available :: "action \<Rightarrow> MainTk \<Rightarrow> bool" where
  "available CloseProject s = (fileMenu_Close s = Normal)"
| "available (Convert c) s = (mainMenu_Convert s = Normal)"
| "available a s = True"

fun window_run :: "(environment \<times> action) list \<Rightarrow> MainTk \<Rightarrow> MainTk" where
  "window_run [] s = s"
| "window_run ((env, a) # rest) s =
     window_run rest (if available a s then step env a s else s)"

section \<open>Notions the properties are stated with\<close>

text \<open>
  The directory \<open>open_project\<close> looks for: the selected file's directory joined with
  the file's name without its extension.
\<close>

definition companion_dir :: "string \<Rightarrow> string" where
  "companion_dir fileName =
     (let (dir, file) = os_path_split fileName;
          (name, extension) = os_path_splitext file
      in os_path_join dir name)"

text \<open>The output file \<open>call_pandoc\<close> passes to the converter for one Markdown file.\<close>

definition pandoc_outputfile :: "string \<Rightarrow> string \<Rightarrow> string" where
  "pandoc_outputfile extension mdFile =
     (let (dir, file) = os_path_split mdFile;
          (name, uu) = os_path_splitext file
      in os_path_join dir (name @ ''.'' @ extension))"

text \<open>The calls of the external converter among the effects, in order.\<close>

fun conversion_calls :: "effect list \<Rightarrow> (string \<times> string \<times> string) list" where
  "conversion_calls [] = []"
| "conversion_calls (ConvertFile src fmt out # es) = (src, fmt, out) # conversion_calls es"
| "conversion_calls (e # es) = conversion_calls es"

text \<open>The messages passed to \<open>set_info_how\<close> among the effects, in order.\<close>

fun reports :: "effect list \<Rightarrow> string list" where
  "reports [] = []"
| "reports (Report m # es) = m # reports es"
| "reports (e # es) = reports es"

text \<open>The file lists handed to \<open>call_pandoc\<close> among the effects, in order.\<close>

fun forwarded :: "effect list \<Rightarrow> string list list" where
  "forwarded [] = []"
| "forwarded (Forwarded fl # es) = fl # forwarded es"
| "forwarded (e # es) = forwarded es"

text \<open>The two states of the menu.\<close>

definition menu_enabled :: "MainTk \<Rightarrow> bool" where
  "menu_enabled s = (fileMenu_Close s = Normal \<and> mainMenu_Convert s = Normal)"

definition menu_disabled :: "MainTk \<Rightarrow> bool" where
  "menu_disabled s = (fileMenu_Close s = Disabled \<and> mainMenu_Convert s = Disabled)"

text \<open>The menu follows the project: enabled when one is open, disabled when none is.\<close>

definition menu_follows_project :: "MainTk \<Rightarrow> bool" where
  "menu_follows_project s = (if prjDir s = None then menu_disabled s else menu_enabled s)"

text \<open>The status bar as \<open>show_status\<close> renders a text, and as an error is rendered.\<close>

definition neutral :: "string \<Rightarrow> label" where
  "neutral message = \<lparr>label_bg = RootBackground, label_fg = Black, label_text = message\<rparr>"

definition error_styled :: "string \<Rightarrow> label" where
  "error_styled message = \<lparr>label_bg = Red, label_fg = White, label_text = message\<rparr>"


text \<open>
  What the user sees in the status bar: the text, and whether \<open>set_info_how\<close> has
  coloured it as an error (red), as a success (green), or not at all.
\<close>

datatype highlight = ErrorHighlight | SuccessHighlight | NoHighlight

definition highlight_of :: "label \<Rightarrow> highlight" where
  "highlight_of l =
     (if label_bg l = Red then ErrorHighlight
      else if label_bg l = Green then SuccessHighlight
      else NoHighlight)"

definition status_display :: "MainTk \<Rightarrow> string \<times> highlight" where
  "status_display s = (label_text (statusBar s), highlight_of (statusBar s))"

text \<open>
  What holds of every session of the window: the menu follows the project, the stored
  status text is empty, and while no project is open the status bar is either the label
  as created or the empty text as \<open>show_status\<close> renders it.
\<close>

definition window_invariant :: "MainTk \<Rightarrow> bool" where
  "window_invariant s =
     (menu_follows_project s \<and> statusText s = []
      \<and> (prjDir s = None \<longrightarrow>
            statusBar s = \<lparr>label_bg = LabelDefault, label_fg = LabelDefault, label_text = []\<rparr>
            \<or> statusBar s = neutral []))"

section \<open>The program as started, and sample surroundings\<close>

text \<open>
  The object the script creates:
  \<open>app = MainTk('Manuskript to Markdown converter', root_geometry='400x200')\<close>.
\<close>

definition app :: MainTk where
  "app = MainTk_init ''Manuskript to Markdown converter'' [''root_geometry'' \<mapsto> ''400x200'']"

text \<open>
  Surroundings in which the user selects \<open>/home/u/novel.msk\<close>, a path at which no file
  exists, while the directory \<open>/home/u/novel\<close> does; the outline generator writes two
  files, the world generator fails, and the converter fails on \<open>outline.md\<close> only.
\<close>

definition sample_env :: environment where
  "sample_env =
     \<lparr>isfile = (\<lambda>p. False),
      isdir = (\<lambda>p. p = ''/home/u/novel''),
      askopenfilename = (\<lambda>d. ''/home/u/novel.msk''),
      mskmd_convert_outline =
        (\<lambda>d. Written [''/home/u/novel/outline.md'', ''/home/u/novel/scenes.md'']),
      mskmd_convert_world = (\<lambda>d. RaisesException ''no world''),
      mskmd_convert_characters = (\<lambda>d. Written []),
      pypandoc_convert_file =
        (\<lambda>done src fmt out. if src = ''/home/u/novel/outline.md'' then Some ''boom'' else None),
      winfo_geometry = ''400x200+0+0''\<rparr>"

text \<open>The same with the companion directory missing, and with the dialog dismissed.\<close>

definition missing_dir_env :: environment where
  "missing_dir_env = sample_env\<lparr>isdir := (\<lambda>p. False)\<rparr>"

definition dismissed_env :: environment where
  "dismissed_env = sample_env\<lparr>askopenfilename := (\<lambda>d. [])\<rparr>"

text \<open>The same with the world generator interrupted from the keyboard.\<close>

definition interrupted_env :: environment where
  "interrupted_env =
     sample_env\<lparr>mskmd_convert_world := (\<lambda>d. RaisesBaseException ''KeyboardInterrupt'')\<rparr>"

section \<open>Facts about the path functions\<close>

lemma py_rstrip_snoc: "d \<noteq> [] \<Longrightarrow> last d \<noteq> c \<Longrightarrow> py_rstrip c (d @ replicate n c) = d"
proof -
  assume d: "d \<noteq> []" "last d \<noteq> c"
  then obtain ys y where yd: "d = ys @ [y]" by (metis append_butlast_last_id)
  with d have "y \<noteq> c" by simp
  then show ?thesis using yd
    by (simp add: py_rstrip_def dropWhile_append3)
qed

lemma py_rstrip_props: "py_rstrip c s = [] \<or> last (py_rstrip c s) \<noteq> c"
proof -
  have "dropWhile (\<lambda>x. x = c) (rev s) = [] \<or> hd (dropWhile (\<lambda>x. x = c) (rev s)) \<noteq> c"
    using hd_dropWhile[of "\<lambda>x. x = c" "rev s"] by blast
  then show ?thesis by (auto simp: py_rstrip_def last_rev)
qed

lemma py_rstrip_empty_iff: "py_rstrip c s = [] \<longleftrightarrow> s = replicate (length s) c"
proof -
  have "py_rstrip c s = [] \<longleftrightarrow> (\<forall>x\<in>set s. x = c)"
    by (auto simp: py_rstrip_def)
  also have "\<dots> \<longleftrightarrow> s = replicate (length s) c"
    by (metis in_set_replicate replicate_length_same)
  finally show ?thesis .
qed

lemma py_rfind_last: "c \<notin> set b \<Longrightarrow> py_rfind c (a @ c # b) = int (length a)"
proof -
  assume h: "c \<notin> set b"
  have "takeWhile (\<lambda>x. x \<noteq> c) (rev b @ c # rev a) = rev b"
    using h by (subst takeWhile_append2) auto
  then show ?thesis by (simp add: py_rfind_def)
qed

lemma splitext_loop_found:
  "0 \<le> i \<Longrightarrow> i \<le> k \<Longrightarrow> k < dot \<Longrightarrow> nat k < length p \<Longrightarrow> p ! nat k \<noteq> extsep
     \<Longrightarrow> splitext_loop p i dot = (take (nat dot) p, drop (nat dot) p)"
proof (induction p i dot rule: splitext_loop.induct)
  case (1 p i dot)
  show ?case
  proof (cases "take 1 (drop (nat i) p) \<noteq> [extsep]")
    case True
    then show ?thesis using "1.prems" by (subst splitext_loop.simps) simp
  next
    case False
    then have eq: "take 1 (drop (nat i) p) = [extsep]" by simp
    have "i \<noteq> k"
    proof
      assume "i = k"
      then have "take 1 (drop (nat i) p) = [p ! nat k]"
        using "1.prems" by (simp add: take_Suc_conv_app_nth)
      with eq "1.prems" show False by simp
    qed
    then have "i + 1 \<le> k" using "1.prems" by simp
    then have "splitext_loop p (i + 1) dot = (take (nat dot) p, drop (nat dot) p)"
      using "1.IH" "1.prems" eq by simp
    then show ?thesis using "1.prems" eq by (subst splitext_loop.simps) simp
  qed
qed

lemma splitext_loop_all_dots:
  "0 \<le> i \<Longrightarrow> (\<forall>k. i \<le> k \<and> k < dot \<longrightarrow> nat k < length p \<and> p ! nat k = extsep)
     \<Longrightarrow> splitext_loop p i dot = (p, [])"
proof (induction p i dot rule: splitext_loop.induct)
  case (1 p i dot)
  show ?case
  proof (cases "i < dot")
    case False
    then show ?thesis by (subst splitext_loop.simps) simp
  next
    case True
    then have "nat i < length p" "p ! nat i = extsep" using "1.prems" by auto
    then have eq: "take 1 (drop (nat i) p) = [extsep]"
      by (simp add: take_Suc_conv_app_nth)
    have "splitext_loop p (i + 1) dot = (p, [])"
      using "1.IH" True eq "1.prems" by simp
    then show ?thesis using True eq by (subst splitext_loop.simps) simp
  qed
qed

lemma splitext_loop_chars:
  "set (fst (splitext_loop p i dot)) \<subseteq> set p"
proof (induction p i dot rule: splitext_loop.induct)
  case (1 p i dot)
  show ?case
    using "1.IH" by (subst splitext_loop.simps) (auto dest: in_set_takeD)
qed

lemma os_path_splitext_chars: "set (fst (os_path_splitext p)) \<subseteq> set p"
  using splitext_loop_chars by (simp add: os_path_splitext_def Let_def)

text \<open>
  A name with a character other than a dot, followed by a dot and an extension without
  dots, splits into exactly these two.
\<close>

lemma os_path_splitext_name_ext:
  assumes "sep \<notin> set n" "sep \<notin> set e" "extsep \<notin> set e" "\<exists>c\<in>set n. c \<noteq> extsep"
  shows "os_path_splitext (n @ extsep # e) = (n, extsep # e)"
proof -
  have sepne: "sep \<noteq> extsep" by (simp add: sep_def extsep_def)
  have s: "py_rfind sep (n @ extsep # e) = - 1"
    using assms sepne by (simp add: py_rfind_def)
  have d: "py_rfind extsep (n @ extsep # e) = int (length n)"
    using assms by (simp add: py_rfind_last)
  from assms(4) obtain k where k: "k < length n" "n ! k \<noteq> extsep"
    by (metis in_set_conv_nth)
  have "splitext_loop (n @ extsep # e) 0 (int (length n))
          = (take (nat (int (length n))) (n @ extsep # e), drop (nat (int (length n))) (n @ extsep # e))"
    by (rule splitext_loop_found[where k = "int k"]) (use k in \<open>auto simp: nth_append\<close>)
  then show ?thesis using s d by (simp add: os_path_splitext_def Let_def)
qed


lemma os_path_split_no_sep: "sep \<notin> set b \<Longrightarrow> os_path_split b = ([], b)"
  by (simp add: os_path_split_def py_rfind_def)

lemma replicate_snoc_eq: "a @ [c] = replicate (Suc (length a)) c \<longleftrightarrow> a = replicate (length a) c"
  by (metis append_eq_append_conv length_replicate replicate_append_same replicate_Suc)

lemma os_path_split_at_last:
  assumes "sep \<notin> set b"
  shows "os_path_split (a @ sep # b)
           = (if a = replicate (length a) sep then a @ [sep] else py_rstrip sep (a @ [sep]), b)"
proof -
  have i: "nat (py_rfind sep (a @ sep # b) + 1) = Suc (length a)"
    using assms by (simp add: py_rfind_last)
  show ?thesis
    unfolding os_path_split_def Let_def i
    using replicate_snoc_eq[of a sep] by simp
qed

text \<open>The tail has no separator; the head is empty, all separators, or does not end in one.\<close>
lemma os_path_split_tail: "sep \<notin> set (snd (os_path_split p))"
proof (cases "sep \<in> set p")
  case False
  then show ?thesis by (simp add: os_path_split_no_sep)
next
  case True
  then obtain a b where "p = a @ sep # b" "sep \<notin> set b" by (metis split_list_last)
  then show ?thesis by (simp add: os_path_split_at_last)
qed

lemma os_path_split_head:
  "fst (os_path_split p) = [] \<or> fst (os_path_split p) = replicate (length (fst (os_path_split p))) sep
     \<or> last (fst (os_path_split p)) \<noteq> sep"
proof (cases "sep \<in> set p")
  case False
  then show ?thesis by (simp add: os_path_split_no_sep)
next
  case True
  then obtain a b where p: "p = a @ sep # b" "sep \<notin> set b" by (metis split_list_last)
  show ?thesis
  proof (cases "a = replicate (length a) sep")
    case True
    then show ?thesis using p replicate_snoc_eq[of a sep] by (simp add: os_path_split_at_last)
  next
    case False
    then have "fst (os_path_split p) = py_rstrip sep (a @ [sep])"
      using p by (simp add: os_path_split_at_last)
    then show ?thesis using py_rstrip_props[of sep "a @ [sep]"] by presburger
  qed
qed

lemma os_path_split_join:
  assumes h: "h = [] \<or> h = replicate (length h) sep \<or> last h \<noteq> sep" and x: "sep \<notin> set x"
  shows "os_path_split (os_path_join h x) = (h, x)"
proof -
  have nostart: "\<not> py_startswith sep x"
    using x by (cases x) (auto simp: py_startswith_def)
  consider "h = []" | "h \<noteq> []" "h = replicate (length h) sep" | "h \<noteq> []" "last h \<noteq> sep"
    using h by blast
  then show ?thesis
  proof cases
    case 1
    then show ?thesis using nostart x by (simp add: os_path_join_def os_path_split_no_sep)
  next
    case 2
    then obtain a where a: "h = a @ [sep]"
      by (metis append_butlast_last_id last_replicate length_0_conv)
    with 2 have arep: "a = replicate (length a) sep"
      using replicate_snoc_eq[of a sep] by simp
    have "py_endswith sep h" using a by (simp add: py_endswith_def)
    then have "os_path_join h x = a @ sep # x" using nostart a by (simp add: os_path_join_def)
    then show ?thesis using x arep a replicate_snoc_eq[of a sep] by (simp add: os_path_split_at_last)
  next
    case 3
    then have "\<not> py_endswith sep h" by (simp add: py_endswith_def)
    then have j: "os_path_join h x = h @ sep # x" using nostart 3 by (simp add: os_path_join_def)
    have nr: "h \<noteq> replicate (length h) sep" using 3 by (metis last_replicate length_0_conv)
    have "py_rstrip sep (h @ replicate 1 sep) = h" using 3 by (rule py_rstrip_snoc)
    then show ?thesis using x nr j by (simp add: os_path_split_at_last)
  qed
qed


lemma os_path_split_dir_file:
  assumes "d \<noteq> []" "last d \<noteq> sep" "sep \<notin> set b"
  shows "os_path_split (d @ sep # b) = (d, b)"
proof -
  have nr: "d \<noteq> replicate (length d) sep" using assms by (metis last_replicate length_0_conv)
  have "py_rstrip sep (d @ replicate 1 sep) = d" using assms(1,2) by (rule py_rstrip_snoc)
  then show ?thesis using assms(3) nr by (simp add: os_path_split_at_last)
qed

lemma os_path_join_dir_file:
  assumes "d \<noteq> []" "last d \<noteq> sep" "sep \<notin> set b"
  shows "os_path_join d b = d @ sep # b"
proof -
  have "\<not> py_startswith sep b" using assms(3) by (cases b) (auto simp: py_startswith_def)
  then show ?thesis using assms by (simp add: os_path_join_def py_endswith_def)
qed

text \<open>
  For a file \<open>d/n.e\<close> (directory \<open>d\<close> not ending in a slash, name \<open>n\<close> with a
  character other than a dot, extension \<open>e\<close> without a dot) the companion directory is
  \<open>d/n\<close>: the selected path with its extension stripped.
\<close>

lemma companion_dir_strips_extension:
  assumes "d \<noteq> []" "last d \<noteq> sep" "sep \<notin> set n" "\<exists>c\<in>set n. c \<noteq> extsep"
    and "sep \<notin> set e" "extsep \<notin> set e"
  shows "companion_dir (d @ sep # n @ extsep # e) = d @ sep # n"
proof -
  have sepne: "sep \<noteq> extsep" by (simp add: sep_def extsep_def)
  have "os_path_split (d @ sep # (n @ extsep # e)) = (d, n @ extsep # e)"
    using assms sepne by (intro os_path_split_dir_file) auto
  moreover have "os_path_splitext (n @ extsep # e) = (n, extsep # e)"
    using assms by (intro os_path_splitext_name_ext) auto
  moreover have "os_path_join d n = d @ sep # n"
    using assms by (intro os_path_join_dir_file) auto
  ultimately show ?thesis by (simp add: companion_dir_def)
qed

lemma pandoc_outputfile_replaces_extension:
  assumes "d \<noteq> []" "last d \<noteq> sep" "sep \<notin> set n" "\<exists>c\<in>set n. c \<noteq> extsep"
    and "sep \<notin> set e" "extsep \<notin> set e" "sep \<notin> set extension"
  shows "pandoc_outputfile extension (d @ sep # n @ extsep # e) = d @ sep # n @ extsep # extension"
proof -
  have sepne: "sep \<noteq> extsep" by (simp add: sep_def extsep_def)
  have "os_path_split (d @ sep # (n @ extsep # e)) = (d, n @ extsep # e)"
    using assms sepne by (intro os_path_split_dir_file) auto
  moreover have "os_path_splitext (n @ extsep # e) = (n, extsep # e)"
    using assms by (intro os_path_splitext_name_ext) auto
  moreover have "os_path_join d (n @ extsep # extension) = d @ sep # n @ extsep # extension"
    using assms sepne by (intro os_path_join_dir_file) auto
  ultimately show ?thesis by (simp add: pandoc_outputfile_def extsep_def)
qed

text \<open>
  For every path: the output file lies in the directory of the Markdown file, and its
  file name is the Markdown file's name without extension, a dot, and the target
  extension.
\<close>

lemma os_path_split_pandoc_outputfile:
  assumes "sep \<notin> set extension"
  shows "os_path_split (pandoc_outputfile extension mdFile)
           = (fst (os_path_split mdFile),
              fst (os_path_splitext (snd (os_path_split mdFile))) @ ''.'' @ extension)"
proof -
  obtain dname fname where sp: "os_path_split mdFile = (dname, fname)" by (cases "os_path_split mdFile")
  obtain name uu where se: "os_path_splitext fname = (name, uu)" by (cases "os_path_splitext fname")
  have "sep \<notin> set fname" using os_path_split_tail[of mdFile] sp by simp
  moreover have "set name \<subseteq> set fname" using os_path_splitext_chars[of fname] se by simp
  ultimately have "sep \<notin> set (name @ ''.'' @ extension)"
    using assms by (auto simp: sep_def)
  moreover have "dname = [] \<or> dname = replicate (length dname) sep \<or> last dname \<noteq> sep"
    using os_path_split_head[of mdFile] sp by simp
  ultimately have "os_path_split (os_path_join dname (name @ ''.'' @ extension))
                     = (dname, name @ ''.'' @ extension)"
    by (intro os_path_split_join)
  then show ?thesis using sp se by (simp add: pandoc_outputfile_def)
qed

lemma output_types_no_sep:
  "0 < i \<Longrightarrow> i < length OUTPUT_TYPES \<Longrightarrow> sep \<notin> set (OUTPUT_TYPES ! i) \<and> extsep \<notin> set (OUTPUT_TYPES ! i) \<and> OUTPUT_TYPES ! i \<noteq> ''md''"
proof -
  assume "0 < i" "i < length OUTPUT_TYPES"
  then have "i = 1 \<or> i = 2 \<or> i = 3" by (auto simp: OUTPUT_TYPES_def)
  then show ?thesis by (auto simp: OUTPUT_TYPES_def sep_def extsep_def)
qed


section \<open>Facts about the methods\<close>

lemma conversion_calls_append:
  "conversion_calls (a @ b) = conversion_calls a @ conversion_calls b"
  by (induction a rule: conversion_calls.induct) simp_all

lemma reports_append: "reports (a @ b) = reports a @ reports b"
  by (induction a rule: reports.induct) simp_all

lemma forwarded_append: "forwarded (a @ b) = forwarded a @ forwarded b"
  by (induction a rule: forwarded.induct) simp_all

lemma set_info_how_effects: "effects (set_info_how m s) = effects s @ [Report m]"
  by (simp add: set_info_how_def Let_def)

lemma set_info_how_frame:
  "prjDir (set_info_how m s) = prjDir s"
  "fileMenu_Close (set_info_how m s) = fileMenu_Close s"
  "mainMenu_Convert (set_info_how m s) = mainMenu_Convert s"
  "statusText (set_info_how m s) = statusText s"
  "outputType (set_info_how m s) = outputType s"
  "pathBar_text (set_info_how m s) = pathBar_text s"
  "kwargs (set_info_how m s) = kwargs s"
  by (simp_all add: set_info_how_def Let_def)

text \<open>Under the guard of \<open>set_info_how\<close> the split has two parts; the second is the rest.\<close>

lemma py_split1_marker: "py_split1 c (c # rest) = [[], rest]"
  by (simp add: py_split1_def)

lemma set_info_how_marked:
  "set_info_how (CHR ''!'' # rest) s =
     s\<lparr>effects := effects s @ [Report (CHR ''!'' # rest)],
       statusBar := error_styled (py_strip rest),
       infoHowText := py_strip rest\<rparr>"
  by (simp add: set_info_how_def Let_def py_startswith_def py_split1_marker error_styled_def)

lemma set_info_how_unmarked:
  "\<not> py_startswith CHR ''!'' m \<Longrightarrow>
   set_info_how m s =
     s\<lparr>effects := effects s @ [Report m],
       statusBar := \<lparr>label_bg = Green, label_fg = White, label_text = m\<rparr>,
       infoHowText := m\<rparr>"
  by (simp add: set_info_how_def Let_def)

lemma call_pandoc_loop_frame:
  "prjDir (call_pandoc_loop env ext fl s) = prjDir s
   \<and> fileMenu_Close (call_pandoc_loop env ext fl s) = fileMenu_Close s
   \<and> mainMenu_Convert (call_pandoc_loop env ext fl s) = mainMenu_Convert s
   \<and> statusText (call_pandoc_loop env ext fl s) = statusText s
   \<and> outputType (call_pandoc_loop env ext fl s) = outputType s"
  by (induction fl arbitrary: s)
     (auto simp: set_info_how_frame Let_def split: prod.splits option.splits)

text \<open>
  The loop calls the converter once for every file of the list, in order, whatever the
  earlier calls answered.
\<close>

lemma call_pandoc_loop_calls:
  "conversion_calls (effects (call_pandoc_loop env ext fl s))
     = conversion_calls (effects s) @ map (\<lambda>f. (f, ext, pandoc_outputfile ext f)) fl"
proof (induction fl arbitrary: s)
  case Nil
  show ?case by simp
next
  case (Cons mdFile fl)
  show ?case
    by (simp add: Cons.IH Let_def pandoc_outputfile_def set_info_how_effects
          conversion_calls_append split: prod.splits option.splits)
qed

lemma call_pandoc_frame:
  "prjDir (snd (call_pandoc env fl s)) = prjDir s
   \<and> fileMenu_Close (snd (call_pandoc env fl s)) = fileMenu_Close s
   \<and> mainMenu_Convert (snd (call_pandoc env fl s)) = mainMenu_Convert s
   \<and> statusText (snd (call_pandoc env fl s)) = statusText s"
  by (simp add: call_pandoc_def Let_def call_pandoc_loop_frame)

lemma convert_frame:
  "prjDir (snd (convert env c s)) = prjDir s
   \<and> fileMenu_Close (snd (convert env c s)) = fileMenu_Close s
   \<and> mainMenu_Convert (snd (convert env c s)) = mainMenu_Convert s
   \<and> statusText (snd (convert env c s)) = statusText s"
  by (cases c)
     (auto simp: convert_outline_def convert_world_def convert_characters_def
        call_pandoc_frame set_info_how_frame split: generated.splits)

lemma select_project_restore: "select_project env (restore_status s) f = select_project env s f"
  by (simp add: select_project_def initDir_def restore_status_def show_status_def)

lemma restore_status_frame:
  "prjDir (restore_status s) = prjDir s"
  "fileMenu_Close (restore_status s) = fileMenu_Close s"
  "mainMenu_Convert (restore_status s) = mainMenu_Convert s"
  "statusText (restore_status s) = statusText s"
  "effects (restore_status s) = effects s"
  "infoHowText (restore_status s) = infoHowText s"
  "pathBar_text (restore_status s) = pathBar_text s"
  "pathText (restore_status s) = pathText s"
  "statusBar (restore_status s) = neutral (statusText s)"
  by (simp_all add: restore_status_def show_status_def neutral_def)

lemma close_project_result:
  "prjDir (close_project s) = None"
  "fileMenu_Close (close_project s) = Disabled"
  "mainMenu_Convert (close_project s) = Disabled"
  "statusText (close_project s) = []"
  "statusBar (close_project s) = neutral []"
  "pathBar_text (close_project s) = []"
  "pathText (close_project s) = Some []"
  "root_title (close_project s) = title s"
  "effects (close_project s) = effects s"
  by (simp_all add: close_project_def disable_menu_def show_path_def show_status_def neutral_def)

text \<open>The three outcomes of \<open>open_project\<close>.\<close>

lemma open_project_dismissed:
  "select_project env s fileName = [] \<Longrightarrow> open_project env fileName s = (False, restore_status s)"
  by (simp add: open_project_def select_project_restore)

lemma open_project_missing:
  assumes "select_project env s fileName = sel" "sel \<noteq> []" "\<not> isdir env (companion_dir sel)"
  shows "open_project env fileName s =
           (False, (if prjDir s \<noteq> None then close_project (restore_status s) else restore_status s)
                     \<lparr>prjName := None, prjDir := None\<rparr>)"
  using assms
  by (auto simp: open_project_def select_project_restore restore_status_frame companion_dir_def
        Let_def split: prod.splits)

lemma open_project_found:
  assumes "select_project env s fileName = sel" "sel \<noteq> []" "isdir env (companion_dir sel)"
  shows "open_project env fileName s =
           (True, enable_menu (show_path (os_path_normpath (companion_dir sel))
                    ((if prjDir s \<noteq> None then close_project (restore_status s) else restore_status s)
                       \<lparr>prjName := Some (fst (os_path_splitext (snd (os_path_split sel)))),
                        prjDir := Some (companion_dir sel)\<rparr>)))"
  using assms
  by (auto simp: open_project_def select_project_restore restore_status_frame companion_dir_def
        Let_def split: prod.splits)


section \<open>Opening a project\<close>

text \<open>
  C1. Whenever the selection yields a file path, \<open>open_project\<close> returns \<open>True\<close> and
  sets \<open>prjDir\<close> to the companion directory (the directory of the selected file joined
  with the file's name without its extension) if and only if that directory exists;
  otherwise it returns \<open>False\<close> and leaves \<open>prjDir\<close> unset. Nothing is asked of
  \<open>isfile\<close>: whether the selected descriptor file exists plays no part.
\<close>

theorem open_project_iff_companion_dir_exists:
  assumes "select_project env s fileName = sel" and "sel \<noteq> []"
  shows "fst (open_project env fileName s) = isdir env (companion_dir sel)
       \<and> prjDir (snd (open_project env fileName s))
           = (if isdir env (companion_dir sel) then Some (companion_dir sel) else None)"
proof (cases "isdir env (companion_dir sel)")
  case True
  then show ?thesis
    using open_project_found[OF assms]
    by (simp add: enable_menu_def show_path_def)
next
  case False
  then show ?thesis
    using open_project_missing[OF assms] by simp
qed

theorem open_project_iff_companion_dir_exists_witness:
  "select_project sample_env app [] = ''/home/u/novel.msk''
   \<and> \<not> isfile sample_env ''/home/u/novel.msk''
   \<and> companion_dir ''/home/u/novel.msk'' = ''/home/u/novel''
   \<and> fst (open_project sample_env [] app)
   \<and> prjDir (snd (open_project sample_env [] app)) = Some ''/home/u/novel''
   \<and> \<not> fst (open_project missing_dir_env [] app)
   \<and> prjDir (snd (open_project missing_dir_env [] app)) = None"
proof -
  have sel: "select_project sample_env app [] = ''/home/u/novel.msk''" by code_simp
  have sel': "select_project missing_dir_env app [] = ''/home/u/novel.msk''" by code_simp
  have ne: "''/home/u/novel.msk'' \<noteq> []" by simp
  have cd: "companion_dir ''/home/u/novel.msk'' = ''/home/u/novel''" by code_simp
  have nf: "\<not> isfile sample_env ''/home/u/novel.msk''" by (simp add: sample_env_def)
  have d1: "isdir sample_env ''/home/u/novel''" by (simp add: sample_env_def)
  have d2: "\<not> isdir missing_dir_env ''/home/u/novel''"
    by (simp add: missing_dir_env_def)
  show ?thesis
    using open_project_iff_companion_dir_exists[OF sel ne]
      open_project_iff_companion_dir_exists[OF sel' ne] sel nf cd d1 d2
    by simp
qed

text \<open>
  C7. When the dialog is shown (no file name was passed, or the name passed is not an
  existing file) and the user dismisses it, \<open>select_project\<close> returns the empty string,
  \<open>open_project\<close> returns \<open>False\<close>, and \<open>set_info_how\<close> is not called: the effects
  and the how-text are as before. All the call does is \<open>restore_status\<close>.
\<close>

theorem open_project_dialog_dismissed:
  assumes "fileName = [] \<or> \<not> isfile env fileName" and "askopenfilename env (initDir s) = []"
  shows "select_project env s fileName = []
       \<and> open_project env fileName s = (False, restore_status s)
       \<and> effects (snd (open_project env fileName s)) = effects s
       \<and> reports (effects (snd (open_project env fileName s))) = reports (effects s)
       \<and> infoHowText (snd (open_project env fileName s)) = infoHowText s"
proof -
  have sel: "select_project env s fileName = []"
    using assms by (auto simp: select_project_def)
  then show ?thesis
    by (simp add: open_project_dismissed restore_status_frame)
qed

theorem open_project_dialog_dismissed_witness:
  "askopenfilename dismissed_env (initDir app) = []
   \<and> select_project dismissed_env app [] = []
   \<and> open_project dismissed_env [] app = (False, restore_status app)
   \<and> reports (effects (snd (open_project dismissed_env [] app))) = []"
proof -
  have a: "askopenfilename dismissed_env (initDir app) = []"
    by (simp add: dismissed_env_def)
  have e: "reports (effects app) = []" by code_simp
  have f: "([]::string) = [] \<or> \<not> isfile dismissed_env []" by simp
  show ?thesis
    using open_project_dialog_dismissed[OF f a] a e by (simp add: restore_status_frame)
qed

text \<open>
  C10. A failed open is not atomic: when a project is open and the user selects a file
  whose companion directory does not exist, \<open>open_project\<close> returns \<open>False\<close>, and the
  project that was open has been closed by then. \<open>prjDir\<close> is \<open>None\<close>, the path bar is
  empty, both menu entries are disabled; the object is the one \<open>close_project\<close>
  leaves, with \<open>prjName\<close> reset.
\<close>

theorem open_project_failure_closes_previous:
  assumes "prjDir s \<noteq> None" and "select_project env s fileName = sel" and "sel \<noteq> []"
    and "\<not> isdir env (companion_dir sel)"
  shows "fst (open_project env fileName s) = False
       \<and> snd (open_project env fileName s)
           = (close_project (restore_status s))\<lparr>prjName := None, prjDir := None\<rparr>
       \<and> prjDir (snd (open_project env fileName s)) = None
       \<and> pathBar_text (snd (open_project env fileName s)) = []
       \<and> pathText (snd (open_project env fileName s)) = Some []
       \<and> menu_disabled (snd (open_project env fileName s))"
  using open_project_missing[OF assms(2,3,4)] assms(1)
  by (simp add: close_project_result menu_disabled_def)

theorem open_project_failure_closes_previous_witness:
  "prjDir (snd (open_project sample_env [] app)) = Some ''/home/u/novel''
   \<and> menu_enabled (snd (open_project sample_env [] app))
   \<and> pathBar_text (snd (open_project sample_env [] app)) = ''/home/u/novel''
   \<and> \<not> fst (open_project missing_dir_env [] (snd (open_project sample_env [] app)))
   \<and> prjDir (snd (open_project missing_dir_env [] (snd (open_project sample_env [] app)))) = None
   \<and> pathBar_text (snd (open_project missing_dir_env [] (snd (open_project sample_env [] app)))) = []
   \<and> menu_disabled (snd (open_project missing_dir_env [] (snd (open_project sample_env [] app))))"
proof -
  let ?s = "snd (open_project sample_env [] app)"
  have p: "prjDir ?s = Some ''/home/u/novel''" by code_simp
  then have p': "prjDir ?s \<noteq> None" by simp
  have m: "menu_enabled ?s" by code_simp
  have b: "pathBar_text ?s = ''/home/u/novel''" by code_simp
  have sel: "select_project missing_dir_env ?s [] = ''/home/u/novel.msk''" by code_simp
  have ne: "''/home/u/novel.msk'' \<noteq> []" by simp
  have d: "\<not> isdir missing_dir_env (companion_dir ''/home/u/novel.msk'')"
    by (simp add: missing_dir_env_def)
  show ?thesis
    using open_project_failure_closes_previous[OF p' sel ne d] p m b
    by (simp add: close_project_result menu_disabled_def)
qed


section \<open>Converting\<close>

text \<open>
  C3 as stated fails for a raise outside \<open>Exception\<close>. A project is open and the
  user chooses \<open>Convert > World\<close>; the generator is interrupted from the keyboard and
  raises \<open>KeyboardInterrupt\<close>. The handler \<open>except Exception\<close> does not catch it:
  the exception leaves \<open>convert_world\<close>, nothing is reported and the status bar is as
  it was.
\<close>

theorem convert_any_exception_reported_counterexample:
  "generate interrupted_env World (prjDir (run [(sample_env, OpenProject [])] app))
     = RaisesBaseException ''KeyboardInterrupt''
   \<and> convert interrupted_env World (run [(sample_env, OpenProject [])] app)
       = (Some (BaseException ''KeyboardInterrupt''), run [(sample_env, OpenProject [])] app)
   \<and> reports (effects (snd (convert interrupted_env World
                                (run [(sample_env, OpenProject [])] app)))) = []
   \<and> statusBar (snd (convert interrupted_env World (run [(sample_env, OpenProject [])] app)))
       = neutral []"
proof -
  let ?s = "run [(sample_env, OpenProject [])] app"
  have g: "generate interrupted_env World (prjDir ?s) = RaisesBaseException ''KeyboardInterrupt''"
    by (simp add: interrupted_env_def)
  have c: "convert interrupted_env World ?s = (Some (BaseException ''KeyboardInterrupt''), ?s)"
    by (simp add: convert_world_def interrupted_env_def)
  have r: "reports (effects ?s) = []" by code_simp
  have b: "statusBar ?s = neutral []" by code_simp
  show ?thesis unfolding c using g r b by simp
qed

text \<open>
  C3, amended. For each of the three categories: when the generator raises an exception
  derived from \<open>Exception\<close>, the command returns after a single call of
  \<open>set_info_how\<close> with \<open>!\<close> followed by the text of the exception, which the status
  bar shows on red. \<open>call_pandoc\<close> is not invoked, so no file list is forwarded and
  the converter is not called; the menu entries and \<open>prjDir\<close> are as before. When the
  generator raises outside \<open>Exception\<close>, the exception leaves the command and the
  object is unchanged: nothing is reported, nothing is forwarded, the menu is as before.
\<close>

theorem convert_generation_failure:
  "(generate env c (prjDir s) = RaisesException ex \<longrightarrow>
      convert env c s = (None, set_info_how (''!'' @ ex) s)
      \<and> reports (effects (snd (convert env c s))) = reports (effects s) @ [''!'' @ ex]
      \<and> forwarded (effects (snd (convert env c s))) = forwarded (effects s)
      \<and> conversion_calls (effects (snd (convert env c s))) = conversion_calls (effects s)
      \<and> statusBar (snd (convert env c s)) = error_styled (py_strip ex)
      \<and> fileMenu_Close (snd (convert env c s)) = fileMenu_Close s
      \<and> mainMenu_Convert (snd (convert env c s)) = mainMenu_Convert s
      \<and> prjDir (snd (convert env c s)) = prjDir s)
   \<and> (generate env c (prjDir s) = RaisesBaseException cls \<longrightarrow>
        convert env c s = (Some (BaseException cls), s))"
proof -
  have caught: "convert env c s = (None, set_info_how (''!'' @ ex) s)"
    if "generate env c (prjDir s) = RaisesException ex"
    using that
    by (cases c) (simp_all add: convert_outline_def convert_world_def convert_characters_def)
  have passed: "convert env c s = (Some (BaseException cls), s)"
    if "generate env c (prjDir s) = RaisesBaseException cls"
    using that
    by (cases c) (simp_all add: convert_outline_def convert_world_def convert_characters_def)
  show ?thesis
    using caught passed
    by (simp add: set_info_how_marked reports_append forwarded_append conversion_calls_append)
qed

theorem convert_generation_failure_witness:
  "generate sample_env World (prjDir app) = RaisesException ''no world''
   \<and> convert sample_env World app = (None, set_info_how ''!no world'' app)
   \<and> reports (effects (snd (convert sample_env World app))) = [''!no world'']
   \<and> forwarded (effects (snd (convert sample_env World app))) = []
   \<and> conversion_calls (effects (snd (convert sample_env World app))) = []
   \<and> statusBar (snd (convert sample_env World app)) = error_styled ''no world''
   \<and> menu_disabled (snd (convert sample_env World app))
   \<and> generate interrupted_env World (prjDir app) = RaisesBaseException ''KeyboardInterrupt''
   \<and> convert interrupted_env World app = (Some (BaseException ''KeyboardInterrupt''), app)"
proof -
  have g: "generate sample_env World (prjDir app) = RaisesException ''no world''"
    by (simp add: sample_env_def)
  have g': "generate interrupted_env World (prjDir app) = RaisesBaseException ''KeyboardInterrupt''"
    by (simp add: interrupted_env_def)
  have e: "effects app = []" by code_simp
  have st: "py_strip ''no world'' = ''no world''" by code_simp
  have md: "menu_disabled app" by code_simp
  show ?thesis
    using convert_generation_failure[of sample_env World app "''no world''"]
      convert_generation_failure[of interrupted_env World app _ "''KeyboardInterrupt''"]
      g g' e st md
    by (simp add: menu_disabled_def set_info_how_marked)
qed

text \<open>
  C5. With the output format index 0 (\<open>md\<close>, the format the generator writes)
  \<open>call_pandoc\<close> only takes the list and returns: the converter is not called, for any
  file list, and so it is not called by a \<open>Convert\<close> command either. Conversely the
  converter is called only if the index is positive and names a format other than
  \<open>md\<close>; with such an index it is called once for every file of the list.
\<close>

theorem call_pandoc_source_format_no_conversion:
  "(outputType s = 0 \<longrightarrow>
      call_pandoc env fileList s = (None, s\<lparr>effects := effects s @ [Forwarded fileList]\<rparr>)
      \<and> conversion_calls (effects (snd (call_pandoc env fileList s))) = conversion_calls (effects s)
      \<and> conversion_calls (effects (snd (convert env c s))) = conversion_calls (effects s))
   \<and> (conversion_calls (effects (snd (call_pandoc env fileList s))) \<noteq> conversion_calls (effects s)
        \<longrightarrow> 0 < outputType s \<and> OUTPUT_TYPES ! nat (outputType s) \<noteq> ''md'')
   \<and> (0 < outputType s \<and> nat (outputType s) < length OUTPUT_TYPES \<longrightarrow>
        length (conversion_calls (effects (snd (call_pandoc env fileList s))))
          = length (conversion_calls (effects s)) + length fileList)"
proof -
  have zero: "call_pandoc env fl t = (None, t\<lparr>effects := effects t @ [Forwarded fl]\<rparr>)"
    if "outputType t = 0" for fl t
    using that by (simp add: call_pandoc_def Let_def)
  have a: "conversion_calls (effects (snd (convert env c s))) = conversion_calls (effects s)"
    if z: "outputType s = 0"
  proof -
    have o: "outputType (set_info_how m s) = 0" for m using z by (simp add: set_info_how_frame)
    show ?thesis
      by (cases c)
         (auto simp: convert_outline_def convert_world_def convert_characters_def zero[OF o]
            set_info_how_effects conversion_calls_append split: generated.splits)
  qed
  have b: "0 < outputType s \<and> OUTPUT_TYPES ! nat (outputType s) \<noteq> ''md''"
    if d: "conversion_calls (effects (snd (call_pandoc env fileList s))) \<noteq> conversion_calls (effects s)"
  proof -
    have pos: "0 < outputType s"
      using d by (auto simp: call_pandoc_def Let_def conversion_calls_append split: if_splits)
    have "nat (outputType s) < length OUTPUT_TYPES"
      using d pos by (auto simp: call_pandoc_def Let_def conversion_calls_append split: if_splits)
    then show ?thesis using pos output_types_no_sep[of "nat (outputType s)"] by simp
  qed
  have c: "length (conversion_calls (effects (snd (call_pandoc env fileList s))))
             = length (conversion_calls (effects s)) + length fileList"
    if "0 < outputType s \<and> nat (outputType s) < length OUTPUT_TYPES"
    using that
    by (simp add: call_pandoc_def Let_def call_pandoc_loop_calls conversion_calls_append)
  show ?thesis using zero[of s fileList] a b c
    by (simp add: conversion_calls_append)
qed


theorem call_pandoc_source_format_no_conversion_witness:
  "outputType app = 0
   \<and> call_pandoc sample_env [''/home/u/novel/outline.md''] app
       = (None, app\<lparr>effects := [Forwarded [''/home/u/novel/outline.md'']]\<rparr>)
   \<and> conversion_calls (effects (snd (convert sample_env Outline app))) = []
   \<and> conversion_calls (effects (snd (call_pandoc sample_env [''/home/u/novel/outline.md'']
                                       (app\<lparr>outputType := 1\<rparr>))))
       = [(''/home/u/novel/outline.md'', ''odt'', ''/home/u/novel/outline.odt'')]
   \<and> OUTPUT_TYPES ! nat (outputType (app\<lparr>outputType := 1\<rparr>)) \<noteq> ''md''"
proof -
  let ?fl = "[''/home/u/novel/outline.md'']"
  let ?s1 = "app\<lparr>outputType := 1\<rparr>"
  have z: "outputType app = 0" by code_simp
  have e: "effects app = []" by code_simp
  have c1: "conversion_calls (effects (snd (call_pandoc sample_env ?fl ?s1)))
              = [(''/home/u/novel/outline.md'', ''odt'', ''/home/u/novel/outline.odt'')]"
    by code_simp
  have d: "conversion_calls (effects (snd (call_pandoc sample_env ?fl ?s1)))
             \<noteq> conversion_calls (effects ?s1)"
    unfolding c1 by (simp add: e)
  show ?thesis
    using call_pandoc_source_format_no_conversion[of app sample_env ?fl Outline]
      call_pandoc_source_format_no_conversion[of ?s1 sample_env ?fl Outline] z e c1 d
    by simp
qed

text \<open>
  C9. With a target format other than \<open>md\<close> (index 1, 2 or 3), \<open>call_pandoc\<close> calls
  the converter for every Markdown file of the list, in order, with the output file
  \<open>os.path.join(dir, name + '.' + extension)\<close>, where \<open>dir\<close> and \<open>name\<close> are the
  directory and the file name without extension of the Markdown file. That output file
  lies in the same directory (splitting it gives \<open>dir\<close> back) and is named
  \<open>name.extension\<close>; for a path of the form \<open>d/n.e\<close> it is \<open>d/n.extension\<close>.
\<close>

theorem call_pandoc_output_paths:
  assumes "0 < outputType s" and "nat (outputType s) < length OUTPUT_TYPES"
    and "extension = OUTPUT_TYPES ! nat (outputType s)"
  shows "conversion_calls (effects (snd (call_pandoc env fileList s)))
           = conversion_calls (effects s)
             @ map (\<lambda>mdFile. (mdFile, extension, pandoc_outputfile extension mdFile)) fileList
       \<and> (\<forall>mdFile \<in> set fileList.
             os_path_split (pandoc_outputfile extension mdFile)
               = (fst (os_path_split mdFile),
                  fst (os_path_splitext (snd (os_path_split mdFile))) @ ''.'' @ extension))
       \<and> (\<forall>d n e. d \<noteq> [] \<and> last d \<noteq> sep \<and> sep \<notin> set n \<and> (\<exists>c\<in>set n. c \<noteq> extsep)
                    \<and> sep \<notin> set e \<and> extsep \<notin> set e
             \<longrightarrow> pandoc_outputfile extension (d @ ''/'' @ n @ ''.'' @ e)
                   = d @ ''/'' @ n @ ''.'' @ extension)"
proof -
  have ns: "sep \<notin> set extension"
    using assms output_types_no_sep[of "nat (outputType s)"] by simp
  have calls: "conversion_calls (effects (snd (call_pandoc env fileList s)))
           = conversion_calls (effects s)
             @ map (\<lambda>mdFile. (mdFile, extension, pandoc_outputfile extension mdFile)) fileList"
    using assms
    by (simp add: call_pandoc_def Let_def call_pandoc_loop_calls conversion_calls_append)
  have dir: "os_path_split (pandoc_outputfile extension mdFile)
               = (fst (os_path_split mdFile),
                  fst (os_path_splitext (snd (os_path_split mdFile))) @ ''.'' @ extension)"
    for mdFile
    using ns by (rule os_path_split_pandoc_outputfile)
  have shape: "pandoc_outputfile extension (d @ ''/'' @ n @ ''.'' @ e)
                 = d @ ''/'' @ n @ ''.'' @ extension"
    if "d \<noteq> [] \<and> last d \<noteq> sep \<and> sep \<notin> set n \<and> (\<exists>c\<in>set n. c \<noteq> extsep)
          \<and> sep \<notin> set e \<and> extsep \<notin> set e" for d n e
    using pandoc_outputfile_replaces_extension[of d n e extension] that ns
    by (simp add: sep_def extsep_def)
  show ?thesis using calls dir shape by blast
qed

theorem call_pandoc_output_paths_witness:
  "0 < outputType (app\<lparr>outputType := 2\<rparr>)
   \<and> nat (outputType (app\<lparr>outputType := 2\<rparr>)) < length OUTPUT_TYPES
   \<and> ''docx'' = OUTPUT_TYPES ! nat (outputType (app\<lparr>outputType := 2\<rparr>))
   \<and> conversion_calls (effects (snd (call_pandoc sample_env
         [''/home/u/novel/outline.md'', ''scenes.md''] (app\<lparr>outputType := 2\<rparr>))))
       = [(''/home/u/novel/outline.md'', ''docx'', ''/home/u/novel/outline.docx''),
          (''scenes.md'', ''docx'', ''scenes.docx'')]
   \<and> os_path_split ''/home/u/novel/outline.docx'' = (''/home/u/novel'', ''outline.docx'')"
proof -
  let ?s = "app\<lparr>outputType := 2\<rparr>"
  have a: "0 < outputType ?s" by simp
  have b: "nat (outputType ?s) < length OUTPUT_TYPES" by (simp add: OUTPUT_TYPES_def)
  have c: "''docx'' = OUTPUT_TYPES ! nat (outputType ?s)" by (simp add: OUTPUT_TYPES_def)
  have e: "effects ?s = []" by code_simp
  have o1: "pandoc_outputfile ''docx'' ''/home/u/novel/outline.md'' = ''/home/u/novel/outline.docx''"
    by code_simp
  have o2: "pandoc_outputfile ''docx'' ''scenes.md'' = ''scenes.docx''"
    by code_simp
  have sp: "os_path_split ''/home/u/novel/outline.md'' = (''/home/u/novel'', ''outline.md'')"
    by code_simp
  have se: "os_path_splitext ''outline.md'' = (''outline'', ''.md'')"
    by code_simp
  show ?thesis
    using call_pandoc_output_paths[OF a b c, of sample_env "[''/home/u/novel/outline.md'', ''scenes.md'']"]
      a b c e o1 o2 sp se
    by simp
qed


text \<open>
  C4, at a concrete session. The project is opened, \<open>odt\<close> is selected and
  \<open>Convert > Outline\<close> is chosen; the generator writes two files and the converter
  raises \<open>boom\<close> on the first. Both files are passed to the converter, so the failure
  does not stop the batch. The failure is reported by \<open>set_info_how('boom')\<close>, without
  the marker \<open>!\<close> that the three \<open>convert_\<close> commands put before the text of an
  exception: the status bar shows \<open>boom\<close> on green, the styling of a success.
\<close>

theorem call_pandoc_failure_reported_as_success:
  "effects (run [(sample_env, OpenProject []), (sample_env, SelectOutput 1),
                 (sample_env, Convert Outline)] app)
     = [Report ''Outline documents written.'',
        Forwarded [''/home/u/novel/outline.md'', ''/home/u/novel/scenes.md''],
        ConvertFile ''/home/u/novel/outline.md'' ''odt'' ''/home/u/novel/outline.odt'',
        Report ''boom'',
        ConvertFile ''/home/u/novel/scenes.md'' ''odt'' ''/home/u/novel/scenes.odt'']
   \<and> statusBar (run [(sample_env, OpenProject []), (sample_env, SelectOutput 1),
                     (sample_env, Convert Outline)] app)
       = \<lparr>label_bg = Green, label_fg = White, label_text = ''boom''\<rparr>
   \<and> statusBar (run [(sample_env, OpenProject []), (sample_env, SelectOutput 1),
                     (sample_env, Convert World)] app)
       = \<lparr>label_bg = Red, label_fg = White, label_text = ''no world''\<rparr>"
  by code_simp

text \<open>
  What the loop of \<open>call_pandoc\<close> does on a failure, for every file and every text of
  the exception: the text is passed to \<open>set_info_how\<close> as it is, and the loop goes on
  with the rest of the list.
\<close>

lemma call_pandoc_loop_failure:
  assumes "pypandoc_convert_file env (effects s) mdFile ext (pandoc_outputfile ext mdFile) = Some ex"
  shows "call_pandoc_loop env ext (mdFile # fileList) s
           = call_pandoc_loop env ext fileList
               (set_info_how ex
                  (s\<lparr>effects := effects s @ [ConvertFile mdFile ext (pandoc_outputfile ext mdFile)]\<rparr>))"
  using assms by (simp add: pandoc_outputfile_def Let_def split: prod.splits)

section \<open>The status bar\<close>

text \<open>
  C2 as stated fails: the how-text is not exactly the message without its marker. For
  \<open>'! boom'\<close> the message without the marker is \<open>' boom'\<close>, and \<open>set_info_how\<close>
  stores \<open>'boom'\<close>.
\<close>

theorem set_info_how_exact_text_counterexample:
  "infoHowText (set_info_how ''! boom'' app) = ''boom''
   \<and> infoHowText (set_info_how ''! boom'' app) \<noteq> '' boom''"
  by code_simp

text \<open>
  C2, amended. For every message that begins with \<open>!\<close>, \<open>set_info_how\<close> renders the
  status bar on red with white text and stores, and shows, the message with the marker
  removed and the whitespace at both ends stripped; that is the message without the
  marker whenever its ends are not whitespace, so \<open>'!boom'\<close> stores \<open>'boom'\<close>. The
  stored status text is not touched, and a following \<open>restore_status\<close> shows it again
  with the neutral styling.
\<close>

theorem set_info_how_error_marker:
  "infoHowText (set_info_how (CHR ''!'' # rest) s) = py_strip rest
   \<and> statusBar (set_info_how (CHR ''!'' # rest) s) = error_styled (py_strip rest)
   \<and> (rest \<noteq> [] \<and> \<not> py_isspace (hd rest) \<and> \<not> py_isspace (last rest)
        \<longrightarrow> infoHowText (set_info_how (CHR ''!'' # rest) s) = rest)
   \<and> infoHowText (set_info_how ''!boom'' s) = ''boom''
   \<and> statusText (set_info_how (CHR ''!'' # rest) s) = statusText s
   \<and> statusBar (restore_status (set_info_how (CHR ''!'' # rest) s)) = neutral (statusText s)
   \<and> statusText (restore_status (set_info_how (CHR ''!'' # rest) s)) = statusText s"
proof -
  have keep: "py_strip rest = rest"
    if "rest \<noteq> [] \<and> \<not> py_isspace (hd rest) \<and> \<not> py_isspace (last rest)"
  proof -
    from that obtain x xs where r: "rest = x # xs" "\<not> py_isspace x" by (cases rest) auto
    then have 1: "dropWhile py_isspace rest = rest" by simp
    from that obtain ys y where r2: "rest = ys @ [y]" "\<not> py_isspace y"
      by (metis append_butlast_last_id)
    then have "dropWhile py_isspace (rev rest) = rev rest" by simp
    with 1 show ?thesis by (simp add: py_strip_def)
  qed
  have boom: "py_strip ''boom'' = ''boom''" by code_simp
  show ?thesis
    using keep boom
    by (simp add: set_info_how_marked restore_status_frame)
qed

theorem set_info_how_error_marker_witness:
  "''boom boom'' \<noteq> [] \<and> \<not> py_isspace (hd ''boom boom'') \<and> \<not> py_isspace (last ''boom boom'')
   \<and> infoHowText (set_info_how ''!boom boom'' app) = ''boom boom''
   \<and> statusBar (set_info_how ''!boom boom'' app) = error_styled ''boom boom''
   \<and> statusBar (restore_status (set_info_how ''!boom boom'' app)) = neutral []"
proof -
  have h: "''boom boom'' \<noteq> [] \<and> \<not> py_isspace (hd ''boom boom'') \<and> \<not> py_isspace (last ''boom boom'')"
    by code_simp
  have st: "statusText app = []" by code_simp
  have sp: "py_strip ''boom boom'' = ''boom boom''" by code_simp
  show ?thesis
    using set_info_how_error_marker[of "''boom boom''" app] h st sp by simp
qed


section \<open>The menu\<close>

lemma open_project_returns:
  assumes "select_project env s f \<noteq> []"
  shows "fst (open_project env f s) = isdir env (companion_dir (select_project env s f))"
proof (cases "isdir env (companion_dir (select_project env s f))")
  case True
  then show ?thesis using open_project_found[OF refl assms True] by simp
next
  case False
  then show ?thesis using open_project_missing[OF refl assms False] by simp
qed

lemma menu_follows_project_init: "menu_follows_project (MainTk_init t kw)"
  by (auto simp: menu_follows_project_def menu_disabled_def MainTk_init_def build_main_menu_def disable_menu_def split: if_splits)

lemma menu_follows_project_open:
  assumes "menu_follows_project s"
  shows "menu_follows_project (snd (open_project env f s))"
proof (cases "select_project env s f = []")
  case True
  then show ?thesis using assms
    by (auto simp: open_project_dismissed menu_follows_project_def menu_enabled_def
          menu_disabled_def restore_status_frame split: if_splits)
next
  case False
  show ?thesis
  proof (cases "isdir env (companion_dir (select_project env s f))")
    case True
    show ?thesis
      using open_project_found[OF refl False True]
      by (auto simp: menu_follows_project_def menu_enabled_def enable_menu_def show_path_def split: if_splits)
  next
    case nd: False
    show ?thesis
      using open_project_missing[OF refl False nd] assms
      by (auto simp: menu_follows_project_def menu_disabled_def close_project_result restore_status_frame split: if_splits)
  qed
qed

lemma menu_follows_project_step:
  assumes "menu_follows_project s"
  shows "menu_follows_project (step env a s)"
proof (cases a)
  case (OpenProject f)
  then show ?thesis using menu_follows_project_open[OF assms] by simp
next
  case CloseProject
  then show ?thesis
    by (auto simp: menu_follows_project_def menu_disabled_def close_project_result split: if_splits)
next
  case RestoreStatus
  then show ?thesis using assms
    by (auto simp: menu_follows_project_def menu_disabled_def menu_enabled_def restore_status_frame split: if_splits)
next
  case (Convert c)
  then show ?thesis using assms convert_frame[of env c s]
    by (auto simp: menu_follows_project_def menu_disabled_def menu_enabled_def split: if_splits)
next
  case (SelectOutput i)
  then show ?thesis using assms
    by (auto simp: menu_follows_project_def menu_disabled_def menu_enabled_def split: if_splits)
next
  case QuitProgram
  then show ?thesis using assms
    by (auto simp: menu_follows_project_def menu_disabled_def menu_enabled_def on_quit_def split: if_splits)
qed

lemma menu_follows_project_run:
  "menu_follows_project s \<Longrightarrow> menu_follows_project (run acts s)"
proof (induction acts arbitrary: s)
  case Nil
  then show ?case by simp
next
  case (Cons ea acts)
  obtain env a where ea: "ea = (env, a)" by (cases ea)
  show ?case
    unfolding ea using Cons.IH[OF menu_follows_project_step[OF Cons.prems]] by simp
qed

lemma entry_state_either: "menu_enabled s \<Longrightarrow> \<not> menu_disabled s"
  by (auto simp: menu_enabled_def menu_disabled_def)

text \<open>
  C6 as stated fails in its last part: an open that fails need not leave the entries
  disabled. With a project open, the user chooses \<open>File > Open\<close> and dismisses the
  dialog: \<open>open_project\<close> returns \<open>False\<close>, the project stays open and the entries
  stay enabled.
\<close>

theorem failed_open_menu_disabled_counterexample:
  "menu_enabled (run [(sample_env, OpenProject [])] app)
   \<and> \<not> fst (open_project dismissed_env [] (run [(sample_env, OpenProject [])] app))
   \<and> menu_enabled (snd (open_project dismissed_env [] (run [(sample_env, OpenProject [])] app)))
   \<and> \<not> menu_disabled (snd (open_project dismissed_env [] (run [(sample_env, OpenProject [])] app)))"
  by code_simp

text \<open>
  C6, amended. In every state a session reaches, \<open>Close\<close> and \<open>Convert\<close> are both
  enabled if a project is open (\<open>prjDir\<close> is set) and both disabled if none is. They
  start disabled; from such a state every successful \<open>open_project\<close> enables them,
  every \<open>close_project\<close> disables them, and every \<open>open_project\<close> that fails because
  the companion directory is missing leaves them disabled with no project open. An
  \<open>open_project\<close> that fails because the dialog is dismissed changes neither the
  entries nor \<open>prjDir\<close>.
\<close>

theorem menu_enabled_iff_project_open:
  assumes "s = run acts (MainTk_init title0 kwargs0)"
  shows "(menu_enabled s \<longleftrightarrow> prjDir s \<noteq> None)
       \<and> (menu_disabled s \<longleftrightarrow> prjDir s = None)
       \<and> menu_disabled (MainTk_init title0 kwargs0)
       \<and> (fst (open_project env f s) \<longrightarrow>
            menu_enabled (snd (open_project env f s)) \<and> prjDir (snd (open_project env f s)) \<noteq> None)
       \<and> menu_disabled (close_project s) \<and> prjDir (close_project s) = None
       \<and> (select_project env s f \<noteq> [] \<and> \<not> fst (open_project env f s) \<longrightarrow>
            menu_disabled (snd (open_project env f s)) \<and> prjDir (snd (open_project env f s)) = None)
       \<and> (select_project env s f = [] \<longrightarrow>
            \<not> fst (open_project env f s)
            \<and> fileMenu_Close (snd (open_project env f s)) = fileMenu_Close s
            \<and> mainMenu_Convert (snd (open_project env f s)) = mainMenu_Convert s
            \<and> prjDir (snd (open_project env f s)) = prjDir s)"
proof -
  have inv: "menu_follows_project s"
    unfolding assms by (rule menu_follows_project_run[OF menu_follows_project_init])
  have inv': "menu_follows_project (snd (open_project env f s))"
    by (rule menu_follows_project_open[OF inv])
  have c1: "menu_enabled s \<longleftrightarrow> prjDir s \<noteq> None"
    using inv entry_state_either[of s] by (auto simp: menu_follows_project_def split: if_splits)
  have c2: "menu_disabled s \<longleftrightarrow> prjDir s = None"
    using inv entry_state_either[of s] by (auto simp: menu_follows_project_def split: if_splits)
  have c3: "menu_disabled (MainTk_init title0 kwargs0)"
    using menu_follows_project_init[of title0 kwargs0]
    by (auto simp: menu_follows_project_def MainTk_init_def build_main_menu_def disable_menu_def split: if_splits)
  have c4: "menu_enabled (snd (open_project env f s)) \<and> prjDir (snd (open_project env f s)) \<noteq> None"
    if ok: "fst (open_project env f s)"
  proof -
    have ne: "select_project env s f \<noteq> []"
      using ok open_project_dismissed[of env s f] by auto
    have "isdir env (companion_dir (select_project env s f))"
      using ok open_project_returns[OF ne] by simp
    from open_project_found[OF refl ne this] show ?thesis
      by (simp add: menu_enabled_def enable_menu_def show_path_def)
  qed
  have c5: "menu_disabled (close_project s) \<and> prjDir (close_project s) = None"
    by (simp add: menu_disabled_def close_project_result)
  have c6: "menu_disabled (snd (open_project env f s)) \<and> prjDir (snd (open_project env f s)) = None"
    if h: "select_project env s f \<noteq> [] \<and> \<not> fst (open_project env f s)"
  proof -
    have nd: "\<not> isdir env (companion_dir (select_project env s f))"
      using h open_project_returns[of env s f] by simp
    have p: "prjDir (snd (open_project env f s)) = None"
      using open_project_missing[OF refl _ nd] h by simp
    with inv' show ?thesis by (auto simp: menu_follows_project_def split: if_splits)
  qed
  have c7: "\<not> fst (open_project env f s)
            \<and> fileMenu_Close (snd (open_project env f s)) = fileMenu_Close s
            \<and> mainMenu_Convert (snd (open_project env f s)) = mainMenu_Convert s
            \<and> prjDir (snd (open_project env f s)) = prjDir s"
    if "select_project env s f = []"
    using that by (simp add: open_project_dismissed restore_status_frame)
  show ?thesis using c1 c2 c3 c4 c5 c6 c7 by blast
qed

theorem menu_enabled_iff_project_open_witness:
  "menu_enabled (run [(sample_env, OpenProject [])] app)
   \<and> prjDir (run [(sample_env, OpenProject [])] app) = Some ''/home/u/novel''
   \<and> fst (open_project sample_env [] (run [(sample_env, OpenProject [])] app))
   \<and> menu_enabled (snd (open_project sample_env [] (run [(sample_env, OpenProject [])] app)))
   \<and> select_project missing_dir_env (run [(sample_env, OpenProject [])] app) [] \<noteq> []
   \<and> \<not> fst (open_project missing_dir_env [] (run [(sample_env, OpenProject [])] app))
   \<and> menu_disabled (snd (open_project missing_dir_env [] (run [(sample_env, OpenProject [])] app)))
   \<and> select_project dismissed_env (run [(sample_env, OpenProject [])] app) [] = []
   \<and> fileMenu_Close (snd (open_project dismissed_env [] (run [(sample_env, OpenProject [])] app)))
       = Normal
   \<and> menu_disabled (close_project (run [(sample_env, OpenProject [])] app))"
proof -
  let ?s = "run [(sample_env, OpenProject [])] app"
  have r: "?s = run [(sample_env, OpenProject [])]
                  (MainTk_init ''Manuskript to Markdown converter'' [''root_geometry'' \<mapsto> ''400x200''])"
    by (simp add: app_def)
  have p: "prjDir ?s = Some ''/home/u/novel''" by code_simp
  have o: "fst (open_project sample_env [] ?s)" by code_simp
  have sm: "select_project missing_dir_env ?s [] \<noteq> []" by code_simp
  have fm: "\<not> fst (open_project missing_dir_env [] ?s)" by code_simp
  have sd: "select_project dismissed_env ?s [] = []" by code_simp
  have n: "fileMenu_Close ?s = Normal" by code_simp
  show ?thesis
    using menu_enabled_iff_project_open[OF r, of sample_env "[]"]
      menu_enabled_iff_project_open[OF r, of missing_dir_env "[]"]
      menu_enabled_iff_project_open[OF r, of dismissed_env "[]"]
      p o sm fm sd n
    by simp
qed


section \<open>The status bar in a session of the window\<close>

lemma window_invariant_init: "window_invariant (MainTk_init t kw)"
  by (simp add: window_invariant_def menu_follows_project_init)
     (simp add: MainTk_init_def build_main_menu_def disable_menu_def)

lemma window_invariant_open:
  assumes "window_invariant s"
  shows "window_invariant (snd (open_project env f s))"
proof -
  have m: "menu_follows_project (snd (open_project env f s))"
    using assms by (simp add: window_invariant_def menu_follows_project_open)
  have st: "statusText s = []" using assms by (simp add: window_invariant_def)
  show ?thesis
  proof (cases "select_project env s f = []")
    case True
    then show ?thesis using m st
      by (simp add: window_invariant_def open_project_dismissed restore_status_frame)
  next
    case False
    show ?thesis
    proof (cases "isdir env (companion_dir (select_project env s f))")
      case True
      show ?thesis
        using open_project_found[OF refl False True] m st
        by (auto simp: window_invariant_def enable_menu_def show_path_def close_project_result
              restore_status_frame)
    next
      case nd: False
      show ?thesis
        using open_project_missing[OF refl False nd] m st
        by (auto simp: window_invariant_def close_project_result restore_status_frame)
    qed
  qed
qed

lemma window_invariant_step:
  assumes "window_invariant s" and "available a s"
  shows "window_invariant (step env a s)"
proof -
  have m0: "menu_follows_project s" using assms(1) by (simp add: window_invariant_def)
  have m: "menu_follows_project (step env a s)"
    using m0 by (rule menu_follows_project_step)
  show ?thesis
  proof (cases a)
    case (OpenProject f)
    then show ?thesis using window_invariant_open[OF assms(1)] by simp
  next
    case CloseProject
    then show ?thesis using m
      by (simp add: window_invariant_def close_project_result)
  next
    case RestoreStatus
    then show ?thesis using assms(1) m
      by (simp add: window_invariant_def restore_status_frame)
  next
    case (Convert c)
    have "mainMenu_Convert s = Normal" using assms(2) Convert by simp
    then have "prjDir s \<noteq> None"
      using m0 by (auto simp: menu_follows_project_def menu_disabled_def split: if_splits)
    then show ?thesis using assms(1) Convert m convert_frame[of env c s]
      by (auto simp: window_invariant_def)
  next
    case (SelectOutput i)
    then show ?thesis using assms(1) m
      by (auto simp: window_invariant_def)
  next
    case QuitProgram
    then show ?thesis using assms(1) m
      by (auto simp: window_invariant_def on_quit_def)
  qed
qed

lemma window_invariant_run:
  "window_invariant s \<Longrightarrow> window_invariant (window_run acts s)"
proof (induction acts arbitrary: s)
  case Nil
  then show ?case by simp
next
  case (Cons ea acts)
  obtain env a where ea: "ea = (env, a)" by (cases ea)
  have "window_invariant (if available a s then step env a s else s)"
    using Cons.prems window_invariant_step by simp
  then show ?case unfolding ea using Cons.IH by simp
qed

text \<open>
  A failed open with no project open, from any object: the call is \<open>restore_status\<close>
  and two assignments of \<open>None\<close>.
\<close>

lemma open_project_missing_no_project:
  assumes "prjDir s = None" and "select_project env s fileName = sel" and "sel \<noteq> []"
    and "\<not> isdir env (companion_dir sel)"
  shows "open_project env fileName s = (False, (restore_status s)\<lparr>prjName := None, prjDir := None\<rparr>)"
  using open_project_missing[OF assms(2,3,4)] assms(1) by simp

text \<open>
  C8. In every session of the window: when no project is open and the selected file's
  companion directory is missing, \<open>open_project\<close> returns \<open>False\<close>, both menu
  entries are disabled before and after the call, and the status display is unchanged:
  the status bar shows the empty text without error or success colouring before and
  after, the stored status text is the same, and nothing is reported. The call renders
  the status bar anew with \<open>restore_status\<close>; the label is the same as before unless
  it was still as created.
\<close>

theorem open_project_missing_dir_status_unchanged:
  assumes "s = window_run acts (MainTk_init title0 kwargs0)" and "prjDir s = None"
    and "select_project env s fileName = sel" and "sel \<noteq> []"
    and "\<not> isdir env (companion_dir sel)"
  shows "fst (open_project env fileName s) = False
       \<and> menu_disabled s
       \<and> menu_disabled (snd (open_project env fileName s))
       \<and> prjDir (snd (open_project env fileName s)) = None
       \<and> status_display (snd (open_project env fileName s)) = status_display s
       \<and> status_display s = ([], NoHighlight)
       \<and> statusText (snd (open_project env fileName s)) = statusText s
       \<and> effects (snd (open_project env fileName s)) = effects s
       \<and> infoHowText (snd (open_project env fileName s)) = infoHowText s
       \<and> statusBar (snd (open_project env fileName s)) = neutral []
       \<and> (statusBar s \<noteq> \<lparr>label_bg = LabelDefault, label_fg = LabelDefault, label_text = []\<rparr>
            \<longrightarrow> statusBar (snd (open_project env fileName s)) = statusBar s)"
proof -
  have inv: "window_invariant s"
    unfolding assms(1) by (rule window_invariant_run[OF window_invariant_init])
  have st: "statusText s = []" using inv by (simp add: window_invariant_def)
  have md: "menu_disabled s"
    using inv assms(2) by (simp add: window_invariant_def menu_follows_project_def)
  have bar: "statusBar s = \<lparr>label_bg = LabelDefault, label_fg = LabelDefault, label_text = []\<rparr>
             \<or> statusBar s = neutral []"
    using inv assms(2) by (simp add: window_invariant_def)
  then have disp: "status_display s = ([], NoHighlight)"
    by (auto simp: status_display_def highlight_of_def neutral_def)
  have res: "open_project env fileName s
               = (False, (restore_status s)\<lparr>prjName := None, prjDir := None\<rparr>)"
    using assms(2,3,4,5) by (rule open_project_missing_no_project)
  have disp': "status_display (snd (open_project env fileName s)) = ([], NoHighlight)"
    unfolding res
    by (simp add: status_display_def highlight_of_def restore_status_frame st neutral_def)
  show ?thesis
    using md st bar disp disp'
    unfolding res
    by (auto simp: restore_status_frame menu_disabled_def)
qed

theorem open_project_missing_dir_status_unchanged_witness:
  "prjDir (window_run [(sample_env, OpenProject []), (sample_env, Convert Outline),
                       (sample_env, CloseProject)] app) = None
   \<and> select_project missing_dir_env
        (window_run [(sample_env, OpenProject []), (sample_env, Convert Outline),
                     (sample_env, CloseProject)] app) [] = ''/home/u/novel.msk''
   \<and> \<not> isdir missing_dir_env (companion_dir ''/home/u/novel.msk'')
   \<and> statusBar (window_run [(sample_env, OpenProject []), (sample_env, Convert Outline),
                          (sample_env, CloseProject)] app) = neutral []
   \<and> \<not> fst (open_project missing_dir_env []
               (window_run [(sample_env, OpenProject []), (sample_env, Convert Outline),
                            (sample_env, CloseProject)] app))
   \<and> menu_disabled (snd (open_project missing_dir_env []
               (window_run [(sample_env, OpenProject []), (sample_env, Convert Outline),
                            (sample_env, CloseProject)] app)))
   \<and> statusBar (snd (open_project missing_dir_env []
               (window_run [(sample_env, OpenProject []), (sample_env, Convert Outline),
                            (sample_env, CloseProject)] app)))
       = statusBar (window_run [(sample_env, OpenProject []), (sample_env, Convert Outline),
                                (sample_env, CloseProject)] app)"
proof -
  let ?acts = "[(sample_env, OpenProject []), (sample_env, Convert Outline),
                (sample_env, CloseProject)]"
  let ?s = "window_run ?acts app"
  have r: "?s = window_run ?acts
                  (MainTk_init ''Manuskript to Markdown converter'' [''root_geometry'' \<mapsto> ''400x200''])"
    by (simp only: app_def)
  have p: "prjDir ?s = None" by code_simp
  have sel: "select_project missing_dir_env ?s [] = ''/home/u/novel.msk''" by code_simp
  have ne: "''/home/u/novel.msk'' \<noteq> []" by simp
  have d: "\<not> isdir missing_dir_env (companion_dir ''/home/u/novel.msk'')"
    by (simp add: missing_dir_env_def)
  have b: "statusBar ?s = neutral []" by code_simp
  have nb: "statusBar ?s \<noteq> \<lparr>label_bg = LabelDefault, label_fg = LabelDefault, label_text = []\<rparr>"
    unfolding b by (simp add: neutral_def)
  have concl: "fst (open_project missing_dir_env [] ?s) = False
       \<and> menu_disabled (snd (open_project missing_dir_env [] ?s))
       \<and> statusBar (snd (open_project missing_dir_env [] ?s)) = statusBar ?s"
    using open_project_missing_dir_status_unchanged[OF r p sel ne d] nb by blast
  show ?thesis using concl p sel d b by simp
qed

end
